theory Spec2Isabelle
  imports Main "HOL-Library.AList" "HOL-Library.Multiset"
begin

section \<open>Typing presence: \<open>ChatUseCase.suscribirseAEscritura\<close>\<close>

text \<open>
  The subscription closes over a JavaScript \<open>Map<string, number>\<close> from user identifier to
  the \<open>Date.now()\<close> reading of that user's last typing event. A \<open>Map\<close> keeps its keys
  unique and in insertion order, and \<open>set\<close> on a present key keeps the key's position:
  an association list with \<open>AList.update\<close> (replace in place, else append) and
  \<open>AList.delete\<close>. Clock readings are integers (milliseconds).

  The state of one subscription holds the fields the closures share: the use case's
  \<open>channelEscritura\<close> (\<open>None\<close> is \<open>null\<close>), the map, the handle of the cleaning interval
  (\<open>Some p\<close> while an interval of period \<open>p\<close> milliseconds is armed, \<open>None\<close> after
  \<open>clearInterval\<close>), and, for the subscriber's callback, the list of the arguments it has
  been invoked with, oldest first.
\<close>

record escritura =
  channelEscritura :: "string option"
  usuariosEscritura :: "(string \<times> int) list"
  limpiarInterval :: "nat option"
  avisos :: "string list list"

text \<open>\<open>callback(Array.from(usuariosEscritura.keys()))\<close>\<close>

definition callback_claves :: "escritura \<Rightarrow> escritura" where
  "callback_claves st = st\<lparr>avisos := avisos st @ [map fst (usuariosEscritura st)]\<rparr>"

text \<open>
  The body of \<open>suscribirseAEscritura\<close> up to its \<open>return\<close>: the channel is created and
  subscribed, the map is empty, the interval is armed with \<open>setInterval(limpiarInactivos, 1000)\<close>.
\<close>

definition suscribirseAEscritura :: escritura where
  "suscribirseAEscritura =
     \<lparr>channelEscritura = Some ''escritura-channel'',
      usuariosEscritura = [],
      limpiarInterval = Some 1000,
      avisos = []\<rparr>"

text \<open>
  The \<open>forEach\<close> of \<open>limpiarInactivos\<close>: it visits the entries the map had when the loop
  started (an entry deleted by the loop is the one being visited, keys being unique), and
  carries the map and the flag \<open>cambio\<close>.
\<close>

fun limpiar_forEach :: "int \<Rightarrow> (string \<times> int) list \<Rightarrow> (string \<times> int) list \<times> bool
    \<Rightarrow> (string \<times> int) list \<times> bool" where
  "limpiar_forEach ahora [] (m, cambio) = (m, cambio)"
| "limpiar_forEach ahora ((userId, timestamp) # resto) (m, cambio) =
     (if ahora - timestamp > 3000
      then limpiar_forEach ahora resto (AList.delete userId m, True)
      else limpiar_forEach ahora resto (m, cambio))"

definition limpiarInactivos :: "int \<Rightarrow> escritura \<Rightarrow> escritura" where
  "limpiarInactivos ahora st =
     (case limpiar_forEach ahora (usuariosEscritura st) (usuariosEscritura st, False) of
        (m, cambio) \<Rightarrow>
          if cambio then callback_claves (st\<lparr>usuariosEscritura := m\<rparr>)
          else st\<lparr>usuariosEscritura := m\<rparr>)"

text \<open>
  The handler registered for \<open>INSERT\<close> on \<open>indicadores_escritura\<close>; \<open>userId\<close> is
  \<open>payload.new.usuario_id\<close> and \<open>ahora\<close> the handler's \<open>Date.now()\<close>.
\<close>

definition manejarInsertEscritura :: "string \<Rightarrow> int \<Rightarrow> escritura \<Rightarrow> escritura" where
  "manejarInsertEscritura userId ahora st =
     callback_claves (st\<lparr>usuariosEscritura := AList.update userId ahora (usuariosEscritura st)\<rparr>)"

text \<open>The function \<open>suscribirseAEscritura\<close> returns.\<close>

definition desuscribirEscritura :: "escritura \<Rightarrow> escritura" where
  "desuscribirEscritura st =
     (case channelEscritura st of
        Some c \<Rightarrow> st\<lparr>channelEscritura := None, limpiarInterval := None, usuariosEscritura := []\<rparr>
      | None \<Rightarrow> st\<lparr>limpiarInterval := None, usuariosEscritura := []\<rparr>)"

text \<open>
  The two runtimes that call into the subscription: the timer runs the interval's function
  only while the interval is armed, and the realtime client calls a channel's handler only
  while the channel has not been removed.
\<close>

definition tick_intervalo :: "int \<Rightarrow> escritura \<Rightarrow> escritura" where
  "tick_intervalo ahora st =
     (case limpiarInterval st of None \<Rightarrow> st | Some p \<Rightarrow> limpiarInactivos ahora st)"

definition entregar_insert :: "string \<Rightarrow> int \<Rightarrow> escritura \<Rightarrow> escritura" where
  "entregar_insert userId ahora st =
     (case channelEscritura st of None \<Rightarrow> st | Some c \<Rightarrow> manejarInsertEscritura userId ahora st)"

text \<open>
  A run of a live subscription: typing events and interval ticks, each with the clock
  reading taken while it is handled.
\<close>

datatype evento = Escribe string | Barrido

fun paso :: "int \<times> evento \<Rightarrow> escritura \<Rightarrow> escritura" where
  "paso (ahora, Escribe userId) st = entregar_insert userId ahora st"
| "paso (ahora, Barrido) st = tick_intervalo ahora st"

definition ejecutar :: "(int \<times> evento) list \<Rightarrow> escritura \<Rightarrow> escritura" where
  "ejecutar tr st = foldl (\<lambda>s e. paso e s) st tr"

text \<open>
  The words of the specification, over a run: the time of a user's most recent typing
  event, and the time of the last sweep.
\<close>

definition ultimo_evento :: "(int \<times> evento) list \<Rightarrow> string \<Rightarrow> int option" where
  "ultimo_evento tr u =
     (case rev (filter (\<lambda>e. snd e = Escribe u) tr) of [] \<Rightarrow> None | x # xs \<Rightarrow> Some (fst x))"

definition ultimo_barrido :: "(int \<times> evento) list \<Rightarrow> int option" where
  "ultimo_barrido tr =
     (case rev (filter (\<lambda>e. snd e = Barrido) tr) of [] \<Rightarrow> None | x # xs \<Rightarrow> Some (fst x))"

section \<open>The backend client\<close>

text \<open>
  Modelled from the spec: the backend handle \<open>supabase\<close> of the module
  \<open>data/services/supabaseClient\<close>, which is not among the sources, and the hosted service
  behind it. The model is the fake the use case can be run against: the active session,
  the rows of \<open>mensajes\<close> as the enrichment join sees them, the objects the service has
  accepted through \<open>insert\<close>, and, for each operation, whether it fails and how (the awaited
  promise rejects, or it resolves with an \<open>error\<close>).

  Strings are lists of characters, a character standing for one code unit below 256;
  \<open>created_at\<close> is the instant the column holds, as an integer, the order of which the
  service sorts by.
\<close>

datatype 'a promesa = Resuelta 'a | Rechazada string

text \<open>The object \<open>{ data, error }\<close> a query resolves with; \<open>None\<close> is \<open>null\<close>.\<close>

datatype 'a respuesta = Respuesta "'a option" "string option"

record autor =
  email :: string
  rol :: string

text \<open>
  The object handed to \<open>from("mensajes").insert\<close>, the row of \<open>mensajes\<close> (the
  \<open>payload.new\<close> of an insert event), and the row as
  \<open>select("*, usuarios!fk_usuario(email, rol)")\<close> returns it.
\<close>

record nuevo_mensaje =
  contenido :: string
  usuario_id :: string

record fila_mensaje = nuevo_mensaje +
  id_mensaje :: string
  created_at :: int

record fila_con_autor = fila_mensaje +
  usuarios :: "autor option"

text \<open>
  Modelled from the spec: the type \<open>Mensaje\<close> of \<open>domain/models/Mensaje\<close>, which is not
  among the sources, with the fields of the object literals of \<open>suscribirseAMensajes\<close>
  (ChatMessage in section 3 of the specification). \<open>usuario\<close> is \<open>None\<close> where the code
  leaves it \<open>null\<close>.
\<close>

record Mensaje = fila_mensaje +
  usuario :: "autor option"

datatype operacion = GetUser | SelectMensajes | SelectMensaje | InsertMensaje | InsertIndicador

datatype fallo = ErrorDevuelto string | Lanzado string

record supabase =
  sesion :: "string option"
  tabla_mensajes :: "fila_con_autor list"
  mensajes_insertados :: "nuevo_mensaje list"
  indicadores_insertados :: "string list"
  fallos :: "(operacion \<times> fallo) list"

definition fallo_de :: "supabase \<Rightarrow> operacion \<Rightarrow> fallo option" where
  "fallo_de sb op = map_of (fallos sb) op"

text \<open>
  \<open>supabase.auth.getUser()\<close>: the value of \<open>data.user\<close>, as the identifier \<open>user.id\<close> of
  the session's user.
\<close>

definition auth_getUser :: "supabase \<Rightarrow> string option promesa" where
  "auth_getUser sb =
     (case fallo_de sb GetUser of
        Some (Lanzado e) \<Rightarrow> Rechazada e
      | Some (ErrorDevuelto e) \<Rightarrow> Resuelta None
      | None \<Rightarrow> Resuelta (sesion sb))"

text \<open>
  \<open>from("mensajes").select(...).order("created_at", { ascending: false }).limit(limite)\<close>:
  the rows newest first, at most \<open>limite\<close> of them.
\<close>

definition select_mensajes :: "nat \<Rightarrow> supabase \<Rightarrow> fila_con_autor list respuesta promesa" where
  "select_mensajes limite sb =
     (case fallo_de sb SelectMensajes of
        Some (Lanzado e) \<Rightarrow> Rechazada e
      | Some (ErrorDevuelto e) \<Rightarrow> Resuelta (Respuesta None (Some e))
      | None \<Rightarrow>
          Resuelta (Respuesta (Some (take limite (rev (sort_key created_at (tabla_mensajes sb))))) None))"

text \<open>
  \<open>from("mensajes").select(...).eq('id', i).single()\<close>: the row with that identifier;
  an error unless exactly one row has it.
\<close>

definition select_mensaje :: "string \<Rightarrow> supabase \<Rightarrow> fila_con_autor respuesta promesa" where
  "select_mensaje i sb =
     (case fallo_de sb SelectMensaje of
        Some (Lanzado e) \<Rightarrow> Rechazada e
      | Some (ErrorDevuelto e) \<Rightarrow> Resuelta (Respuesta None (Some e))
      | None \<Rightarrow>
          (case filter (\<lambda>f. id_mensaje f = i) (tabla_mensajes sb) of
             [f] \<Rightarrow> Resuelta (Respuesta (Some f) None)
           | _ \<Rightarrow> Resuelta (Respuesta None (Some ''JSON object requested, multiple (or no) rows returned''))))"

text \<open>
  The two inserts resolve with the \<open>error\<close> of their response; the service keeps the
  object only when it reports none.
\<close>

definition insert_mensaje :: "nuevo_mensaje \<Rightarrow> supabase \<Rightarrow> string option promesa \<times> supabase" where
  "insert_mensaje fila sb =
     (case fallo_de sb InsertMensaje of
        Some (Lanzado e) \<Rightarrow> (Rechazada e, sb)
      | Some (ErrorDevuelto e) \<Rightarrow> (Resuelta (Some e), sb)
      | None \<Rightarrow> (Resuelta None, sb\<lparr>mensajes_insertados := mensajes_insertados sb @ [fila]\<rparr>))"

definition insert_indicador :: "string \<Rightarrow> supabase \<Rightarrow> string option promesa \<times> supabase" where
  "insert_indicador uid sb =
     (case fallo_de sb InsertIndicador of
        Some (Lanzado e) \<Rightarrow> (Rechazada e, sb)
      | Some (ErrorDevuelto e) \<Rightarrow> (Resuelta (Some e), sb)
      | None \<Rightarrow> (Resuelta None, sb\<lparr>indicadores_insertados := indicadores_insertados sb @ [uid]\<rparr>))"

section \<open>Messages: \<open>ChatUseCase\<close>\<close>

text \<open>
  Every method wraps its body in \<open>try\<close>/\<open>catch\<close>: a rejected promise and a \<open>throw\<close> in
  the body both end in the \<open>catch\<close> branch, which returns a value. Console output is not
  part of the model.
\<close>

text \<open>\<open>(msg) => ({ ...msg, usuario: msg.usuarios })\<close>, at the type \<open>Mensaje\<close>.\<close>

definition formatear :: "fila_con_autor \<Rightarrow> Mensaje" where
  "formatear msg =
     \<lparr>contenido = contenido msg, usuario_id = usuario_id msg,
      id_mensaje = id_mensaje msg, created_at = created_at msg,
      usuario = usuarios msg\<rparr>"

text \<open>\<open>obtenerMensajes(limite = 50)\<close>; the argument is \<open>None\<close> when the caller omits it.\<close>

definition obtenerMensajes :: "nat option \<Rightarrow> supabase \<Rightarrow> Mensaje list" where
  "obtenerMensajes limite sb =
     (case select_mensajes (case limite of None \<Rightarrow> 50 | Some n \<Rightarrow> n) sb of
        Rechazada e \<Rightarrow> []
      | Resuelta (Respuesta d err) \<Rightarrow>
          (case err of
             Some e \<Rightarrow> []
           | None \<Rightarrow> rev (map formatear (case d of None \<Rightarrow> [] | Some filas \<Rightarrow> filas))))"

definition enviarEventoEscritura :: "bool \<Rightarrow> supabase \<Rightarrow> unit \<times> supabase" where
  "enviarEventoEscritura escribiendo sb =
     (case auth_getUser sb of
        Rechazada e \<Rightarrow> ((), sb)
      | Resuelta None \<Rightarrow> ((), sb)
      | Resuelta (Some user_id) \<Rightarrow>
          if escribiendo then
            (case insert_indicador user_id sb of
               (Rechazada e, sb') \<Rightarrow> ((), sb')
             | (Resuelta err, sb') \<Rightarrow> ((), sb'))
          else ((), sb))"

record resultado =
  success :: bool
  error :: "string option"

definition enviarMensaje :: "string \<Rightarrow> supabase \<Rightarrow> resultado \<times> supabase" where
  "enviarMensaje cont sb =
     (case auth_getUser sb of
        Rechazada e \<Rightarrow> (\<lparr>success = False, error = Some e\<rparr>, sb)
      | Resuelta None \<Rightarrow> (\<lparr>success = False, error = Some ''Usuario no autenticado''\<rparr>, sb)
      | Resuelta (Some user_id) \<Rightarrow>
          (case enviarEventoEscritura False sb of
             (u, sb1) \<Rightarrow>
               (case insert_mensaje \<lparr>contenido = cont, usuario_id = user_id\<rparr> sb1 of
                  (Rechazada e, sb2) \<Rightarrow> (\<lparr>success = False, error = Some e\<rparr>, sb2)
                | (Resuelta (Some e), sb2) \<Rightarrow> (\<lparr>success = False, error = Some e\<rparr>, sb2)
                | (Resuelta None, sb2) \<Rightarrow> (\<lparr>success = True, error = None\<rparr>, sb2))))"

text \<open>
  The handler \<open>suscribirseAMensajes\<close> registers for \<open>INSERT\<close> on \<open>mensajes\<close>, over the
  subscriber's \<open>callback\<close> as a function on the subscriber's state.
\<close>

definition desconocido :: autor where
  "desconocido = \<lparr>email = ''Desconocido'', rol = ''usuario''\<rparr>"

definition mensajeFallback :: "fila_mensaje \<Rightarrow> Mensaje" where
  "mensajeFallback payload_new =
     \<lparr>contenido = contenido payload_new, usuario_id = usuario_id payload_new,
      id_mensaje = id_mensaje payload_new, created_at = created_at payload_new,
      usuario = Some desconocido\<rparr>"

definition mensajeFormateado :: "fila_con_autor \<Rightarrow> Mensaje" where
  "mensajeFormateado d =
     \<lparr>contenido = contenido d, usuario_id = usuario_id d,
      id_mensaje = id_mensaje d, created_at = created_at d,
      usuario = Some (case usuarios d of Some a \<Rightarrow> a | None \<Rightarrow> desconocido)\<rparr>"

definition manejarInsertMensaje ::
    "(Mensaje \<Rightarrow> 's \<Rightarrow> 's) \<Rightarrow> fila_mensaje \<Rightarrow> supabase \<Rightarrow> 's \<Rightarrow> 's" where
  "manejarInsertMensaje callback payload_new sb s =
     (case select_mensaje (id_mensaje payload_new) sb of
        Rechazada e \<Rightarrow> callback (mensajeFallback payload_new) s
      | Resuelta (Respuesta d err) \<Rightarrow>
          (case err of
             Some e \<Rightarrow> callback (mensajeFallback payload_new) s
           | None \<Rightarrow>
               (case d of
                  Some fila \<Rightarrow> callback (mensajeFormateado fila) s
                | None \<Rightarrow> s)))"

section \<open>The hook \<open>useChat\<close>\<close>

text \<open>
  \<open>String.prototype.trim\<close> removes white space and line terminators from both ends; of
  those, the code units below 256 are tab, line feed, vertical tab, form feed, carriage
  return, space and the no-break space.
\<close>

definition esEspacio :: "char \<Rightarrow> bool" where
  "esEspacio c =
     (c \<in> set [CHR 0x09, CHR 0x0A, CHR 0x0B, CHR 0x0C, CHR 0x0D, CHR 0x20, CHR 0xA0])"

definition trim :: "string \<Rightarrow> string" where
  "trim s = rev (dropWhile esEspacio (rev (dropWhile esEspacio s)))"

text \<open>
  The state of the hook: its \<open>useState\<close> cells and the timeout handle it keeps in a ref
  (\<open>Some d\<close> while a timeout of \<open>d\<close> milliseconds is pending).
\<close>

record useChat =
  mensajes :: "Mensaje list"
  cargando :: bool
  enviando :: bool
  usuariosEscribiendo :: "string list"
  inputTexto :: string
  typingTimeoutRef :: "nat option"

definition detenerEscritura :: "useChat \<Rightarrow> useChat" where
  "detenerEscritura h =
     (case typingTimeoutRef h of Some d \<Rightarrow> h\<lparr>typingTimeoutRef := None\<rparr> | None \<Rightarrow> h)"

text \<open>
  The message of the hook for blank content, \<open>El mensaje esta vacio\<close> with an acute accent
  on the last letter of its third word (code unit 0xE1) and on the first \<open>i\<close> of its
  fourth (code unit 0xED).
\<close>

definition mensaje_vacio :: string where
  "mensaje_vacio = ''El mensaje est'' @ [CHR 0xE1] @ '' vac'' @ [CHR 0xED] @ ''o''"

text \<open>The hook's \<open>enviarMensaje\<close>, over the hook's state and the backend.\<close>

definition useChat_enviarMensaje ::
    "string \<Rightarrow> useChat \<times> supabase \<Rightarrow> resultado \<times> useChat \<times> supabase" where
  "useChat_enviarMensaje cont hs =
     (case hs of (h, sb) \<Rightarrow>
        if trim cont = [] then (\<lparr>success = False, error = Some mensaje_vacio\<rparr>, h, sb)
        else
          (case enviarMensaje cont sb of
             (res, sb') \<Rightarrow>
               (res, (detenerEscritura (h\<lparr>enviando := True\<rparr>))\<lparr>enviando := False, inputTexto := []\<rparr>, sb')))"

text \<open>
  The callback the hook passes to \<open>suscribirseAMensajes\<close>: the updater given to
  \<open>setMensajes\<close>, applied to the list.
\<close>

definition alRecibirMensaje :: "Mensaje \<Rightarrow> useChat \<Rightarrow> useChat" where
  "alRecibirMensaje nuevoMensaje h =
     h\<lparr>mensajes :=
        (if list_ex (\<lambda>m. id_mensaje m = id_mensaje nuevoMensaje) (mensajes h) then mensajes h
         else mensajes h @ [nuevoMensaje])\<rparr>"

section \<open>Example data\<close>

text \<open>
  A backend with a session and three messages stored out of order, a hook state and the
  row of an insert event, for the concrete instances below.
\<close>

definition sb_ejemplo :: supabase where
  "sb_ejemplo =
     \<lparr>sesion = Some ''u1'',
      tabla_mensajes =
        [\<lparr>contenido = ''hola'', usuario_id = ''u1'', id_mensaje = ''m3'', created_at = 30,
           usuarios = Some \<lparr>email = ''ana@example.com'', rol = ''chef''\<rparr>\<rparr>,
         \<lparr>contenido = ''buenas'', usuario_id = ''u2'', id_mensaje = ''m1'', created_at = 10,
           usuarios = None\<rparr>,
         \<lparr>contenido = ''que tal'', usuario_id = ''u1'', id_mensaje = ''m2'', created_at = 20,
           usuarios = Some \<lparr>email = ''ana@example.com'', rol = ''chef''\<rparr>\<rparr>],
      mensajes_insertados = [],
      indicadores_insertados = [],
      fallos = []\<rparr>"

definition h_ejemplo :: useChat where
  "h_ejemplo =
     \<lparr>mensajes = [], cargando = False, enviando = False, usuariosEscribiendo = [],
      inputTexto = ''   '', typingTimeoutRef = Some 1500\<rparr>"

definition payload_ejemplo :: fila_mensaje where
  "payload_ejemplo =
     \<lparr>contenido = ''que tal'', usuario_id = ''u1'', id_mensaje = ''m2'', created_at = 20\<rparr>"

section \<open>Properties of the typing presence\<close>

lemma avisos_manejarInsertEscritura:
  "avisos (manejarInsertEscritura userId ahora st) =
     avisos st @ [map fst (AList.update userId ahora (usuariosEscritura st))]"
  by (simp add: manejarInsertEscritura_def callback_claves_def)

lemma limpiar_forEach_filter:
  "limpiar_forEach ahora xs (m, c) =
     (filter (\<lambda>e. fst e \<notin> fst ` {x \<in> set xs. ahora - snd x > 3000}) m,
      c \<or> (\<exists>x\<in>set xs. ahora - snd x > 3000))"
proof (induction xs arbitrary: m c)
  case Nil
  then show ?case by simp
next
  case (Cons x xs)
  obtain u ts where x: "x = (u, ts)" by (cases x)
  show ?case
  proof (cases "ahora - ts > 3000")
    case True
    have "filter (\<lambda>e. fst e \<notin> fst ` {y \<in> set xs. ahora - snd y > 3000}) (AList.delete u m)
        = filter (\<lambda>e. fst e \<notin> fst ` {y \<in> set (x # xs). ahora - snd y > 3000}) m"
      unfolding AList.delete_eq x using True
      by (auto intro!: filter_cong simp: image_iff)
    with True show ?thesis by (simp add: x Cons.IH)
  next
    case False
    have "{y \<in> set (x # xs). ahora - snd y > 3000} = {y \<in> set xs. ahora - snd y > 3000}"
      using False by (auto simp: x)
    with False show ?thesis by (simp add: x Cons.IH)
  qed
qed

lemma filter_claves_distintas:
  assumes "distinct (map fst m)"
  shows "filter (\<lambda>e. fst e \<notin> fst ` {x \<in> set m. P x}) m = filter (\<lambda>e. \<not> P e) m"
proof (rule filter_cong[OF refl])
  fix e assume e: "e \<in> set m"
  have "fst e \<in> fst ` {x \<in> set m. P x} \<longleftrightarrow> P e"
  proof
    assume "fst e \<in> fst ` {x \<in> set m. P x}"
    then obtain x where x: "x \<in> set m" "P x" "fst x = fst e" by auto
    from assms x(1) e x(3) have "x = e"
      by (metis eq_key_imp_eq_value prod.collapse)
    with x show "P e" by simp
  next
    assume "P e" with e show "fst e \<in> fst ` {x \<in> set m. P x}" by auto
  qed
  then show "(fst e \<notin> fst ` {x \<in> set m. P x}) = (\<not> P e)" by simp
qed

lemma limpiar_forEach_distinct:
  assumes "distinct (map fst m)"
  shows "limpiar_forEach ahora m (m, False) =
     (filter (\<lambda>e. \<not> ahora - snd e > 3000) m, \<exists>x\<in>set m. ahora - snd x > 3000)"
  by (simp add: limpiar_forEach_filter filter_claves_distintas[OF assms])

lemma ejecutar_snoc: "ejecutar (tr @ [e]) st = paso e (ejecutar tr st)"
  by (simp add: ejecutar_def)

lemma ultimo_evento_snoc:
  "ultimo_evento (tr @ [e]) u = (if snd e = Escribe u then Some (fst e) else ultimo_evento tr u)"
  by (simp add: ultimo_evento_def split: list.splits)

lemma ultimo_barrido_snoc:
  "ultimo_barrido (tr @ [e]) = (if snd e = Barrido then Some (fst e) else ultimo_barrido tr)"
  by (simp add: ultimo_barrido_def split: list.splits)

lemma ultimo_barrido_en_traza: "ultimo_barrido tr = Some s \<Longrightarrow> s \<in> fst ` set tr"
proof -
  assume a: "ultimo_barrido tr = Some s"
  then obtain x xs where f: "rev (filter (\<lambda>e. snd e = Barrido) tr) = x # xs" and s: "s = fst x"
    by (auto simp: ultimo_barrido_def split: list.splits)
  have "x \<in> set (rev (filter (\<lambda>e. snd e = Barrido) tr))"
    unfolding f by simp
  then show ?thesis using s by auto
qed

lemma campos_ejecutar:
  "channelEscritura (ejecutar tr suscribirseAEscritura) = Some ''escritura-channel'' \<and>
   limpiarInterval (ejecutar tr suscribirseAEscritura) = Some 1000"
proof (induction tr rule: rev_induct)
  case Nil
  show ?case by (simp add: ejecutar_def suscribirseAEscritura_def)
next
  case (snoc e tr)
  obtain t ev where e: "e = (t, ev)" by (cases e)
  show ?case using snoc
    by (cases ev)
      (simp_all add: e ejecutar_snoc entregar_insert_def tick_intervalo_def
        manejarInsertEscritura_def limpiarInactivos_def callback_claves_def split: prod.splits)
qed

lemma paso_Escribe_vivo:
  "paso (t, Escribe u) (ejecutar tr suscribirseAEscritura) =
     manejarInsertEscritura u t (ejecutar tr suscribirseAEscritura)"
  by (simp add: entregar_insert_def campos_ejecutar)

lemma paso_Barrido_vivo:
  "paso (t, Barrido) (ejecutar tr suscribirseAEscritura) =
     limpiarInactivos t (ejecutar tr suscribirseAEscritura)"
  by (simp add: tick_intervalo_def campos_ejecutar)

lemma usuarios_limpiarInactivos:
  "distinct (map fst (usuariosEscritura st)) \<Longrightarrow>
   usuariosEscritura (limpiarInactivos ahora st) =
     filter (\<lambda>e. \<not> ahora - snd e > 3000) (usuariosEscritura st)"
  by (simp add: limpiarInactivos_def limpiar_forEach_distinct callback_claves_def)

lemma avisos_limpiarInactivos:
  "distinct (map fst (usuariosEscritura st)) \<Longrightarrow>
   avisos (limpiarInactivos ahora st) =
     (if \<exists>e\<in>set (usuariosEscritura st). ahora - snd e > 3000
      then avisos st @ [map fst (filter (\<lambda>e. \<not> ahora - snd e > 3000) (usuariosEscritura st))]
      else avisos st)"
  by (simp add: limpiarInactivos_def limpiar_forEach_distinct callback_claves_def)

lemma usuarios_manejarInsertEscritura:
  "usuariosEscritura (manejarInsertEscritura u t st) = AList.update u t (usuariosEscritura st)"
  by (simp add: manejarInsertEscritura_def callback_claves_def)

lemma claves_distintas_ejecutar:
  "distinct (map fst (usuariosEscritura (ejecutar tr suscribirseAEscritura)))"
proof (induction tr rule: rev_induct)
  case Nil
  show ?case by (simp add: ejecutar_def suscribirseAEscritura_def)
next
  case (snoc e tr)
  obtain t ev where e: "e = (t, ev)" by (cases e)
  show ?case
  proof (cases ev)
    case (Escribe u)
    with snoc show ?thesis
      by (simp add: e ejecutar_snoc paso_Escribe_vivo usuarios_manejarInsertEscritura
          distinct_update del: paso.simps)
  next
    case Barrido
    with snoc show ?thesis
      by (simp add: e ejecutar_snoc paso_Barrido_vivo usuarios_limpiarInactivos
          distinct_map_filter del: paso.simps)
  qed
qed

lemma entradas_ultimo_evento:
  "(u, ts) \<in> set (usuariosEscritura (ejecutar tr suscribirseAEscritura)) \<Longrightarrow>
   ultimo_evento tr u = Some ts"
proof (induction tr arbitrary: u ts rule: rev_induct)
  case Nil
  then show ?case by (simp add: ejecutar_def suscribirseAEscritura_def)
next
  case (snoc e tr)
  obtain t ev where e: "e = (t, ev)" by (cases e)
  let ?st = "ejecutar tr suscribirseAEscritura"
  show ?case
  proof (cases ev)
    case (Escribe v)
    from snoc.prems have m: "(u, ts) \<in> set (AList.update v t (usuariosEscritura ?st))"
      by (simp add: e Escribe ejecutar_snoc paso_Escribe_vivo usuarios_manejarInsertEscritura
          del: paso.simps)
    have d: "distinct (map fst (AList.update v t (usuariosEscritura ?st)))"
      by (rule distinct_update) (rule claves_distintas_ejecutar)
    show ?thesis
    proof (cases "u = v")
      case True
      from d m have "map_of (AList.update v t (usuariosEscritura ?st)) u = Some ts"
        by simp
      then have "ts = t" by (simp add: update_conv' True)
      then show ?thesis by (simp add: ultimo_evento_snoc e Escribe True)
    next
      case False
      from d m have "map_of (AList.update v t (usuariosEscritura ?st)) u = Some ts"
        by simp
      then have "map_of (usuariosEscritura ?st) u = Some ts"
        using False by (simp add: update_conv')
      then have "(u, ts) \<in> set (usuariosEscritura ?st)" by (rule map_of_SomeD)
      then have "ultimo_evento tr u = Some ts" by (rule snoc.IH)
      then show ?thesis using False by (simp add: ultimo_evento_snoc e Escribe)
    qed
  next
    case Barrido
    from snoc.prems have "(u, ts) \<in> set (usuariosEscritura ?st)"
      by (simp add: e Barrido ejecutar_snoc paso_Barrido_vivo usuarios_limpiarInactivos
          claves_distintas_ejecutar del: paso.simps)
    then have "ultimo_evento tr u = Some ts" by (rule snoc.IH)
    then show ?thesis by (simp add: ultimo_evento_snoc e Barrido)
  qed
qed

lemma entradas_recientes:
  "sorted (map fst tr) \<Longrightarrow> ultimo_barrido tr = Some s \<Longrightarrow>
   (u, ts) \<in> set (usuariosEscritura (ejecutar tr suscribirseAEscritura)) \<Longrightarrow>
   s - ts \<le> 3000"
proof (induction tr arbitrary: u ts s rule: rev_induct)
  case Nil
  then show ?case by (simp add: ultimo_barrido_def)
next
  case (snoc e tr)
  obtain t ev where e: "e = (t, ev)" by (cases e)
  let ?st = "ejecutar tr suscribirseAEscritura"
  from snoc.prems(1) have ord: "sorted (map fst tr)" and le: "\<forall>x\<in>set tr. fst x \<le> t"
    by (auto simp: sorted_append e)
  show ?case
  proof (cases ev)
    case (Escribe v)
    from snoc.prems(2) have sb: "ultimo_barrido tr = Some s"
      by (simp add: ultimo_barrido_snoc e Escribe)
    from snoc.prems(3) have m: "(u, ts) \<in> set (AList.update v t (usuariosEscritura ?st))"
      by (simp add: e Escribe ejecutar_snoc paso_Escribe_vivo usuarios_manejarInsertEscritura
          del: paso.simps)
    have d: "distinct (map fst (AList.update v t (usuariosEscritura ?st)))"
      by (rule distinct_update) (rule claves_distintas_ejecutar)
    from d m have mo: "map_of (AList.update v t (usuariosEscritura ?st)) u = Some ts"
      by simp
    show ?thesis
    proof (cases "u = v")
      case True
      from mo have "ts = t" by (simp add: update_conv' True)
      moreover from ultimo_barrido_en_traza[OF sb] le have "s \<le> t" by auto
      ultimately show ?thesis by simp
    next
      case False
      from mo have "map_of (usuariosEscritura ?st) u = Some ts"
        using False by (simp add: update_conv')
      then have "(u, ts) \<in> set (usuariosEscritura ?st)" by (rule map_of_SomeD)
      with ord sb show ?thesis by (rule snoc.IH)
    qed
  next
    case Barrido
    from snoc.prems(2) have "s = t" by (simp add: ultimo_barrido_snoc e Barrido)
    moreover from snoc.prems(3) have "\<not> t - ts > 3000"
      by (simp add: e Barrido ejecutar_snoc paso_Barrido_vivo usuarios_limpiarInactivos
          claves_distintas_ejecutar del: paso.simps)
    ultimately show ?thesis by simp
  qed
qed

lemma aviso_del_paso:
  "avisos (paso e (ejecutar tr suscribirseAEscritura)) = avisos (ejecutar tr suscribirseAEscritura) @ [R]
   \<Longrightarrow> R = map fst (usuariosEscritura (paso e (ejecutar tr suscribirseAEscritura)))"
proof -
  let ?st = "ejecutar tr suscribirseAEscritura"
  assume a: "avisos (paso e ?st) = avisos ?st @ [R]"
  obtain t ev where e: "e = (t, ev)" by (cases e)
  show ?thesis
  proof (cases ev)
    case (Escribe v)
    with a show ?thesis
      by (simp add: e paso_Escribe_vivo usuarios_manejarInsertEscritura
          avisos_manejarInsertEscritura del: paso.simps)
  next
    case Barrido
    with a show ?thesis
      by (simp add: e paso_Barrido_vivo usuarios_limpiarInactivos avisos_limpiarInactivos
          claves_distintas_ejecutar del: paso.simps split: if_splits)
  qed
qed

text \<open>
  Claim C1. In every run of a live subscription the cleaning interval stays armed with its
  period of 1000 milliseconds. A sweep at clock reading \<open>ahora\<close> keeps exactly the entries
  whose age \<open>ahora - timestamp\<close> is at most 3000 and invokes the callback, with the keys
  that remain, if and only if it evicted an entry. Whenever the clock readings of a run do
  not decrease and its last event reports a presence list \<open>R\<close>, every user of \<open>R\<close> has a
  most recent typing event, and that event is at most 3000 milliseconds older than the last
  sweep of the run.
\<close>

theorem C1_barrido_presencia:
  "limpiarInterval (ejecutar tr suscribirseAEscritura) = Some 1000 \<and>
   usuariosEscritura (paso (ahora, Barrido) (ejecutar tr suscribirseAEscritura)) =
     filter (\<lambda>e. \<not> ahora - snd e > 3000) (usuariosEscritura (ejecutar tr suscribirseAEscritura)) \<and>
   avisos (paso (ahora, Barrido) (ejecutar tr suscribirseAEscritura)) =
     (if \<exists>e\<in>set (usuariosEscritura (ejecutar tr suscribirseAEscritura)). ahora - snd e > 3000
      then avisos (ejecutar tr suscribirseAEscritura) @
        [map fst (filter (\<lambda>e. \<not> ahora - snd e > 3000)
           (usuariosEscritura (ejecutar tr suscribirseAEscritura)))]
      else avisos (ejecutar tr suscribirseAEscritura)) \<and>
   (sorted (map fst (tr @ [x])) \<and>
    avisos (ejecutar (tr @ [x]) suscribirseAEscritura) =
      avisos (ejecutar tr suscribirseAEscritura) @ [R] \<and>
    u \<in> set R \<longrightarrow>
    (\<exists>ts. ultimo_evento (tr @ [x]) u = Some ts \<and>
       (\<forall>s. ultimo_barrido (tr @ [x]) = Some s \<longrightarrow> s - ts \<le> 3000)))"
proof (intro conjI impI)
  let ?st = "ejecutar tr suscribirseAEscritura"
  show "limpiarInterval ?st = Some 1000"
    by (simp add: campos_ejecutar)
  show "usuariosEscritura (paso (ahora, Barrido) ?st) =
      filter (\<lambda>e. \<not> ahora - snd e > 3000) (usuariosEscritura ?st)"
    by (simp add: paso_Barrido_vivo usuarios_limpiarInactivos claves_distintas_ejecutar
        del: paso.simps)
  show "avisos (paso (ahora, Barrido) ?st) =
     (if \<exists>e\<in>set (usuariosEscritura ?st). ahora - snd e > 3000
      then avisos ?st @ [map fst (filter (\<lambda>e. \<not> ahora - snd e > 3000) (usuariosEscritura ?st))]
      else avisos ?st)"
    by (simp only: paso_Barrido_vivo avisos_limpiarInactivos[OF claves_distintas_ejecutar])
next
  let ?st = "ejecutar tr suscribirseAEscritura"
  assume a: "sorted (map fst (tr @ [x])) \<and>
    avisos (ejecutar (tr @ [x]) suscribirseAEscritura) = avisos ?st @ [R] \<and> u \<in> set R"
  then have "R = map fst (usuariosEscritura (ejecutar (tr @ [x]) suscribirseAEscritura))"
    by (simp only: ejecutar_snoc aviso_del_paso)
  with a obtain ts where
    m: "(u, ts) \<in> set (usuariosEscritura (ejecutar (tr @ [x]) suscribirseAEscritura))"
    by auto
  have "ultimo_evento (tr @ [x]) u = Some ts"
    using m by (rule entradas_ultimo_evento)
  moreover have "\<forall>s. ultimo_barrido (tr @ [x]) = Some s \<longrightarrow> s - ts \<le> 3000"
    using a m entradas_recientes by blast
  ultimately show "\<exists>ts. ultimo_evento (tr @ [x]) u = Some ts \<and>
       (\<forall>s. ultimo_barrido (tr @ [x]) = Some s \<longrightarrow> s - ts \<le> 3000)"
    by blast
qed

theorem C1_barrido_presencia_witness:
  "sorted (map fst ([(0::int, Escribe ''A''), (1000, Barrido), (1500, Escribe ''B'')] @ [(3500, Barrido)])) \<and>
   avisos (ejecutar ([(0, Escribe ''A''), (1000, Barrido), (1500, Escribe ''B'')] @ [(3500, Barrido)])
      suscribirseAEscritura) =
     avisos (ejecutar [(0, Escribe ''A''), (1000, Barrido), (1500, Escribe ''B'')]
      suscribirseAEscritura) @ [[''B'']] \<and>
   ''B'' \<in> set [''B''] \<and>
   ultimo_evento ([(0, Escribe ''A''), (1000, Barrido), (1500, Escribe ''B'')] @ [(3500, Barrido)]) ''B''
     = Some 1500 \<and>
   ultimo_barrido ([(0, Escribe ''A''), (1000, Barrido), (1500, Escribe ''B'')] @ [(3500, Barrido)])
     = Some 3500 \<and>
   usuariosEscritura (paso (3500, Barrido)
     (ejecutar [(0, Escribe ''A''), (1000, Barrido), (1500, Escribe ''B'')] suscribirseAEscritura)) =
     [(''B'', 1500)]"
  using C1_barrido_presencia[of "[(0, Escribe ''A''), (1000, Barrido), (1500, Escribe ''B'')]"
      3500 "(3500, Barrido)" "[''B'']" "''B''"]
  by (simp add: ejecutar_def suscribirseAEscritura_def entregar_insert_def tick_intervalo_def
      manejarInsertEscritura_def limpiarInactivos_def callback_claves_def AList.delete_eq
      ultimo_evento_def ultimo_barrido_def)

text \<open>
  Claim C2 at a concrete run: user \<open>A\<close> types at 0 and again at 1000. The second event leaves
  the keys as they were and the callback is invoked a second time.
\<close>

theorem C2_refresco_counterexample:
  "avisos (ejecutar [(0, Escribe ''A'')] suscribirseAEscritura) = [[''A'']] \<and>
   map fst (usuariosEscritura (ejecutar [(0, Escribe ''A'')] suscribirseAEscritura)) = [''A''] \<and>
   map fst (usuariosEscritura (ejecutar [(0, Escribe ''A''), (1000, Escribe ''A'')] suscribirseAEscritura))
     = [''A''] \<and>
   avisos (ejecutar [(0, Escribe ''A''), (1000, Escribe ''A'')] suscribirseAEscritura)
     = [[''A''], [''A'']]"
  by (simp add: ejecutar_def suscribirseAEscritura_def entregar_insert_def
      manejarInsertEscritura_def callback_claves_def)

lemma limpiar_forEach_sin_viejos:
  "\<forall>x\<in>set xs. \<not> ahora - snd x > 3000 \<Longrightarrow> limpiar_forEach ahora xs (m, c) = (m, c)"
  by (induction xs arbitrary: m c) auto

text \<open>
  Claim C2, as the code has it. The handler of a typing event invokes the callback on every
  event, with the keys of the map after the event: those keys are the ones before, with the
  user appended when new and unchanged when the event only refreshes the user's timestamp.
  Only the sweep invokes the callback exactly when the set of keys has changed.
\<close>

theorem C2_aviso_en_cada_insert:
  "avisos (manejarInsertEscritura userId ahora st) =
     avisos st @ [map fst (usuariosEscritura (manejarInsertEscritura userId ahora st))] \<and>
   map fst (usuariosEscritura (manejarInsertEscritura userId ahora st)) =
     (if userId \<in> set (map fst (usuariosEscritura st)) then map fst (usuariosEscritura st)
      else map fst (usuariosEscritura st) @ [userId]) \<and>
   avisos (limpiarInactivos ahora st) =
     (if set (map fst (usuariosEscritura (limpiarInactivos ahora st))) =
         set (map fst (usuariosEscritura st))
      then avisos st
      else avisos st @ [map fst (usuariosEscritura (limpiarInactivos ahora st))])"
proof (intro conjI)
  show "avisos (manejarInsertEscritura userId ahora st) =
     avisos st @ [map fst (usuariosEscritura (manejarInsertEscritura userId ahora st))]"
    by (simp add: manejarInsertEscritura_def callback_claves_def)
  show "map fst (usuariosEscritura (manejarInsertEscritura userId ahora st)) =
     (if userId \<in> set (map fst (usuariosEscritura st)) then map fst (usuariosEscritura st)
      else map fst (usuariosEscritura st) @ [userId])"
    by (simp only: usuarios_manejarInsertEscritura update_keys)
  show "avisos (limpiarInactivos ahora st) =
     (if set (map fst (usuariosEscritura (limpiarInactivos ahora st))) =
         set (map fst (usuariosEscritura st))
      then avisos st
      else avisos st @ [map fst (usuariosEscritura (limpiarInactivos ahora st))])"
  proof (cases "\<exists>x\<in>set (usuariosEscritura st). ahora - snd x > 3000")
    case True
    then obtain x where x: "x \<in> set (usuariosEscritura st)" "ahora - snd x > 3000" by blast
    let ?m = "filter (\<lambda>e. fst e \<notin> fst ` {x \<in> set (usuariosEscritura st). ahora - snd x > 3000})
        (usuariosEscritura st)"
    have "fst x \<in> set (map fst (usuariosEscritura st))" using x by auto
    moreover have "fst x \<notin> set (map fst ?m)" using x by auto
    ultimately have "set (map fst ?m) \<noteq> set (map fst (usuariosEscritura st))" by blast
    then show ?thesis using True
      by (simp add: limpiarInactivos_def limpiar_forEach_filter callback_claves_def)
  next
    case False
    then have "limpiar_forEach ahora (usuariosEscritura st) (usuariosEscritura st, False) =
        (usuariosEscritura st, False)"
      by (intro limpiar_forEach_sin_viejos) blast
    then show ?thesis by (simp add: limpiarInactivos_def)
  qed
qed

theorem C2_aviso_en_cada_insert_witness:
  "avisos (manejarInsertEscritura ''A'' 1000 (manejarInsertEscritura ''A'' 0 suscribirseAEscritura)) =
     [[''A''], [''A'']] \<and>
   map fst (usuariosEscritura
     (manejarInsertEscritura ''A'' 1000 (manejarInsertEscritura ''A'' 0 suscribirseAEscritura))) = [''A''] \<and>
   avisos (limpiarInactivos 2000 (manejarInsertEscritura ''A'' 0 suscribirseAEscritura)) = [[''A'']] \<and>
   avisos (limpiarInactivos 3001 (manejarInsertEscritura ''A'' 0 suscribirseAEscritura)) = [[''A''], []]"
  using C2_aviso_en_cada_insert[of "''A''" 1000 "manejarInsertEscritura ''A'' 0 suscribirseAEscritura"]
    C2_aviso_en_cada_insert[of "''A''" 2000 "manejarInsertEscritura ''A'' 0 suscribirseAEscritura"]
  by (simp add: suscribirseAEscritura_def manejarInsertEscritura_def limpiarInactivos_def
      callback_claves_def AList.delete_eq)

text \<open>
  Claim C3 at a concrete run: after the returned function has run, the handler called with
  an event of user \<open>A\<close> invokes the callback with \<open>[A]\<close> and stores the entry.
\<close>

theorem C3_manejador_sin_guarda_counterexample:
  "avisos (desuscribirEscritura suscribirseAEscritura) = [] \<and>
   avisos (manejarInsertEscritura ''A'' 5 (desuscribirEscritura suscribirseAEscritura)) = [[''A'']] \<and>
   usuariosEscritura (manejarInsertEscritura ''A'' 5 (desuscribirEscritura suscribirseAEscritura)) =
     [(''A'', 5)]"
  by (simp add: suscribirseAEscritura_def desuscribirEscritura_def manejarInsertEscritura_def
      callback_claves_def)

text \<open>
  Claim C3, as the code has it. The returned function clears \<open>channelEscritura\<close>, the
  interval and the map and does not invoke the callback; afterwards an event arriving through
  the removed channel and a tick of the cleared interval change nothing, and so does a
  second call of the returned function. The handler itself carries no guard: called
  directly after the teardown it returns normally, stores the user with the clock reading
  and invokes the callback with that user alone.
\<close>

theorem C3_desuscribirEscritura:
  "channelEscritura (desuscribirEscritura st) = None \<and>
   limpiarInterval (desuscribirEscritura st) = None \<and>
   usuariosEscritura (desuscribirEscritura st) = [] \<and>
   avisos (desuscribirEscritura st) = avisos st \<and>
   entregar_insert userId ahora (desuscribirEscritura st) = desuscribirEscritura st \<and>
   tick_intervalo ahora (desuscribirEscritura st) = desuscribirEscritura st \<and>
   desuscribirEscritura (desuscribirEscritura st) = desuscribirEscritura st \<and>
   manejarInsertEscritura userId ahora (desuscribirEscritura st) =
     (desuscribirEscritura st)\<lparr>usuariosEscritura := [(userId, ahora)], avisos := avisos st @ [[userId]]\<rparr>"
  by (simp add: desuscribirEscritura_def entregar_insert_def tick_intervalo_def
      manejarInsertEscritura_def callback_claves_def split: option.split)

theorem C3_desuscribirEscritura_witness:
  "entregar_insert ''A'' 5 (desuscribirEscritura (manejarInsertEscritura ''B'' 1 suscribirseAEscritura)) =
     \<lparr>channelEscritura = None, usuariosEscritura = [], limpiarInterval = None, avisos = [[''B'']]\<rparr> \<and>
   tick_intervalo 5000 (desuscribirEscritura (manejarInsertEscritura ''B'' 1 suscribirseAEscritura)) =
     \<lparr>channelEscritura = None, usuariosEscritura = [], limpiarInterval = None, avisos = [[''B'']]\<rparr> \<and>
   manejarInsertEscritura ''A'' 5 (desuscribirEscritura (manejarInsertEscritura ''B'' 1 suscribirseAEscritura)) =
     \<lparr>channelEscritura = None, usuariosEscritura = [(''A'', 5)], limpiarInterval = None,
      avisos = [[''B''], [''A'']]\<rparr>"
  using C3_desuscribirEscritura[of "manejarInsertEscritura ''B'' 1 suscribirseAEscritura" "''A''" 5]
    C3_desuscribirEscritura[of "manejarInsertEscritura ''B'' 1 suscribirseAEscritura" "''A''" 5000]
  by (simp add: suscribirseAEscritura_def desuscribirEscritura_def manejarInsertEscritura_def
      callback_claves_def)

section \<open>Properties of the messages\<close>

lemma created_at_formatear: "created_at (formatear f) = created_at f"
  by (simp add: formatear_def)

lemma sorted_rev_take_rev:
  fixes xs :: "int list"
  shows "sorted xs \<Longrightarrow> sorted (rev (take n (rev xs)))"
  by (simp add: rev_take sorted_wrt_drop)

lemma obtenerMensajes_sin_fallo:
  "fallo_de sb SelectMensajes = None \<Longrightarrow>
   obtenerMensajes limite sb =
     rev (map formatear (take (case limite of None \<Rightarrow> 50 | Some n \<Rightarrow> n)
       (rev (sort_key created_at (tabla_mensajes sb)))))"
  by (simp add: obtenerMensajes_def select_mensajes_def)

lemma obtenerMensajes_casos:
  "obtenerMensajes limite sb = [] \<or>
   obtenerMensajes limite sb =
     rev (map formatear (take (case limite of None \<Rightarrow> 50 | Some n \<Rightarrow> n)
       (rev (sort_key created_at (tabla_mensajes sb)))))"
  by (simp add: obtenerMensajes_def select_mensajes_def split: option.splits fallo.splits)

lemma sorted_obtenerMensajes: "sorted (map created_at (obtenerMensajes limite sb))"
proof -
  have "sorted (map created_at
      (rev (map formatear (take k (rev (sort_key created_at (tabla_mensajes sb)))))))" for k
  proof -
    have "map created_at (rev (map formatear (take k (rev (sort_key created_at (tabla_mensajes sb))))))
        = rev (take k (rev (map created_at (sort_key created_at (tabla_mensajes sb)))))"
      by (simp add: rev_map take_map comp_def created_at_formatear)
    then show ?thesis by (simp only: sorted_rev_take_rev sorted_sort_key)
  qed
  with obtenerMensajes_casos[of limite sb] show ?thesis by auto
qed

lemma mas_recientes:
  assumes "m \<in> set (take n (rev (sort_key created_at (tabla_mensajes sb))))"
    and "r \<in> set (drop n (rev (sort_key created_at (tabla_mensajes sb))))"
  shows "created_at r \<le> created_at m"
proof -
  let ?d = "rev (sort_key created_at (tabla_mensajes sb))"
  have "sorted (rev (map created_at ?d))"
    by (simp add: rev_map[symmetric] sorted_sort_key)
  then have "sorted (rev (map created_at (take n ?d @ drop n ?d)))" by simp
  then have "\<forall>y\<in>set (map created_at (drop n ?d)). \<forall>x\<in>set (map created_at (take n ?d)). y \<le> x"
    unfolding map_append rev_append sorted_append by auto
  with assms show ?thesis by auto
qed

text \<open>
  Claim C4. Whatever the order of the rows in the table, and whether the limit is given or
  left to its default of 50, \<open>obtenerMensajes\<close> returns its messages in non-decreasing order
  of \<open>created_at\<close>. When the query does not fail, the result is the reverse of the first rows
  newest first, as many as the limit; it has as many messages as the limit, or all of them
  when the table has fewer; and the rows it leaves out are no newer than any message it
  returns.
\<close>

theorem C4_obtenerMensajes_orden:
  "sorted (map created_at (obtenerMensajes limite sb)) \<and>
   (fallo_de sb SelectMensajes = None \<longrightarrow>
      obtenerMensajes limite sb =
        rev (map formatear (take (case limite of None \<Rightarrow> 50 | Some n \<Rightarrow> n)
          (rev (sort_key created_at (tabla_mensajes sb))))) \<and>
      length (obtenerMensajes limite sb) =
        min (case limite of None \<Rightarrow> 50 | Some n \<Rightarrow> n) (length (tabla_mensajes sb)) \<and>
      (\<exists>resto. mset (map formatear (tabla_mensajes sb)) =
           mset (obtenerMensajes limite sb) + mset resto \<and>
         (\<forall>m\<in>set (obtenerMensajes limite sb). \<forall>r\<in>set resto. created_at r \<le> created_at m)))"
proof (intro conjI impI)
  show "sorted (map created_at (obtenerMensajes limite sb))"
    by (rule sorted_obtenerMensajes)
next
  assume ok: "fallo_de sb SelectMensajes = None"
  let ?d = "rev (sort_key created_at (tabla_mensajes sb))"
  let ?n = "case limite of None \<Rightarrow> 50 | Some n \<Rightarrow> n"
  show eq: "obtenerMensajes limite sb = rev (map formatear (take ?n ?d))"
    using ok by (rule obtenerMensajes_sin_fallo)
  show "length (obtenerMensajes limite sb) = min ?n (length (tabla_mensajes sb))"
    by (simp add: eq min.commute)
  have "mset (map formatear (tabla_mensajes sb)) = mset (map formatear ?d)"
    by simp
  also have "\<dots> = mset (map formatear (take ?n ?d @ drop ?n ?d))" by simp
  also have "\<dots> = mset (obtenerMensajes limite sb) + mset (map formatear (drop ?n ?d))"
    unfolding eq map_append by simp
  finally have a: "mset (map formatear (tabla_mensajes sb)) =
      mset (obtenerMensajes limite sb) + mset (map formatear (drop ?n ?d))" .
  have b: "\<forall>m\<in>set (obtenerMensajes limite sb). \<forall>r\<in>set (map formatear (drop ?n ?d)).
      created_at r \<le> created_at m"
    unfolding eq using mas_recientes[of _ ?n sb] by (auto simp: created_at_formatear)
  from a b show "\<exists>resto. mset (map formatear (tabla_mensajes sb)) =
           mset (obtenerMensajes limite sb) + mset resto \<and>
         (\<forall>m\<in>set (obtenerMensajes limite sb). \<forall>r\<in>set resto. created_at r \<le> created_at m)"
    by blast
qed

theorem C4_obtenerMensajes_orden_witness:
  "fallo_de sb_ejemplo SelectMensajes = None \<and>
   map created_at (tabla_mensajes sb_ejemplo) = [30, 10, 20] \<and>
   map created_at (obtenerMensajes (Some 2) sb_ejemplo) = [20, 30] \<and>
   map id_mensaje (obtenerMensajes (Some 2) sb_ejemplo) = [''m2'', ''m3''] \<and>
   sorted (map created_at (obtenerMensajes (Some 2) sb_ejemplo)) \<and>
   length (obtenerMensajes (Some 2) sb_ejemplo) = min 2 (length (tabla_mensajes sb_ejemplo)) \<and>
   map id_mensaje (obtenerMensajes None sb_ejemplo) = [''m1'', ''m2'', ''m3''] \<and>
   sorted (map created_at (obtenerMensajes None sb_ejemplo)) \<and>
   length (obtenerMensajes None sb_ejemplo) = min 50 (length (tabla_mensajes sb_ejemplo))"
  using C4_obtenerMensajes_orden[of "Some 2" sb_ejemplo]
    C4_obtenerMensajes_orden[of None sb_ejemplo]
  by (simp add: obtenerMensajes_def select_mensajes_def sb_ejemplo_def fallo_de_def formatear_def)

text \<open>The contents that \<open>trim\<close> empties are those of white space only.\<close>

lemma trim_vacio_iff: "trim s = [] \<longleftrightarrow> (\<forall>c\<in>set s. esEspacio c)"
proof (cases "dropWhile esEspacio s")
  case Nil
  have "trim s = []" unfolding trim_def Nil by simp
  moreover from Nil have "\<forall>c\<in>set s. esEspacio c" by (simp add: dropWhile_eq_Nil_conv)
  ultimately show ?thesis by simp
next
  case (Cons a as)
  then have "\<not> esEspacio a" using hd_dropWhile[of esEspacio s] by simp
  then have "trim s \<noteq> []" by (simp add: trim_def Cons dropWhile_eq_Nil_conv)
  moreover have "\<not> (\<forall>c\<in>set s. esEspacio c)"
    using Cons dropWhile_eq_Nil_conv[of esEspacio s] by simp
  ultimately show ?thesis by simp
qed

text \<open>
  Claim C5. When the content is empty after \<open>trim\<close>, the hook's \<open>enviarMensaje\<close> returns
  the failure with the message for empty content and leaves the hook's state and the
  backend as they were: nothing is inserted.
\<close>

theorem C5_contenido_en_blanco:
  "trim cont = [] \<Longrightarrow>
   useChat_enviarMensaje cont (h, sb) = (\<lparr>success = False, error = Some mensaje_vacio\<rparr>, h, sb) \<and>
   mensajes_insertados (snd (snd (useChat_enviarMensaje cont (h, sb)))) = mensajes_insertados sb"
  by (simp add: useChat_enviarMensaje_def)

theorem C5_contenido_en_blanco_witness:
  "trim ''   '' = [] \<and>
   useChat_enviarMensaje ''   '' (h_ejemplo, sb_ejemplo) =
     (\<lparr>success = False, error = Some mensaje_vacio\<rparr>, h_ejemplo, sb_ejemplo) \<and>
   trim [] = [] \<and>
   useChat_enviarMensaje [] (h_ejemplo, sb_ejemplo) =
     (\<lparr>success = False, error = Some mensaje_vacio\<rparr>, h_ejemplo, sb_ejemplo)"
  using C5_contenido_en_blanco[of "''   ''" h_ejemplo sb_ejemplo]
    C5_contenido_en_blanco[of "[]" h_ejemplo sb_ejemplo]
  by (simp add: trim_def esEspacio_def)

text \<open>
  Claim C6 at a concrete backend: the session of user \<open>u1\<close> is active and the service
  answers the insert with an error. \<open>enviarMensaje\<close> returns a failure and nothing is
  inserted.
\<close>

theorem C6_error_de_insert_counterexample:
  "auth_getUser (sb_ejemplo\<lparr>fallos := [(InsertMensaje, ErrorDevuelto ''permission denied'')]\<rparr>)
     = Resuelta (Some ''u1'') \<and>
   enviarMensaje ''hola'' (sb_ejemplo\<lparr>fallos := [(InsertMensaje, ErrorDevuelto ''permission denied'')]\<rparr>)
     = (\<lparr>success = False, error = Some ''permission denied''\<rparr>,
        sb_ejemplo\<lparr>fallos := [(InsertMensaje, ErrorDevuelto ''permission denied'')]\<rparr>)"
  by (simp add: enviarMensaje_def enviarEventoEscritura_def auth_getUser_def insert_mensaje_def
      fallo_de_def sb_ejemplo_def)

lemma enviarEventoEscritura_False: "enviarEventoEscritura False sb = ((), sb)"
  by (simp add: enviarEventoEscritura_def split: promesa.splits option.splits)

lemma mensajes_useChat_enviarMensaje:
  "mensajes (fst (snd (useChat_enviarMensaje cont (h, sb)))) = mensajes h"
  by (simp add: useChat_enviarMensaje_def detenerEscritura_def split: prod.splits option.splits)

text \<open>
  Claim C6, as the code has it. Without a session \<open>enviarMensaje\<close> returns the failure
  \<open>Usuario no autenticado\<close> as a value and leaves the backend as it was. With a session it
  hands the content and the user's identifier to the insert: when the service accepts the
  row it returns success and the row is the one new insert; when the service answers with
  an error, or the request throws, it returns a failure with that error's message and
  nothing is inserted. In no case does the send add the message to the hook's list: the
  list changes only through the subscription.
\<close>

theorem C6_enviarMensaje_sesion:
  "(auth_getUser sb = Resuelta None \<longrightarrow>
      enviarMensaje cont sb = (\<lparr>success = False, error = Some ''Usuario no autenticado''\<rparr>, sb)) \<and>
   (auth_getUser sb = Resuelta (Some uid) \<longrightarrow>
      (fallo_de sb InsertMensaje = None \<longrightarrow>
         enviarMensaje cont sb =
           (\<lparr>success = True, error = None\<rparr>,
            sb\<lparr>mensajes_insertados :=
              mensajes_insertados sb @ [\<lparr>contenido = cont, usuario_id = uid\<rparr>]\<rparr>)) \<and>
      (fallo_de sb InsertMensaje = Some (ErrorDevuelto e) \<or>
       fallo_de sb InsertMensaje = Some (Lanzado e) \<longrightarrow>
         enviarMensaje cont sb = (\<lparr>success = False, error = Some e\<rparr>, sb))) \<and>
   mensajes (fst (snd (useChat_enviarMensaje cont (h, sb)))) = mensajes h"
  by (auto simp add: enviarMensaje_def enviarEventoEscritura_False insert_mensaje_def
      mensajes_useChat_enviarMensaje)

theorem C6_enviarMensaje_sesion_witness:
  "auth_getUser (sb_ejemplo\<lparr>sesion := None\<rparr>) = Resuelta None \<and>
   enviarMensaje ''hola'' (sb_ejemplo\<lparr>sesion := None\<rparr>) =
     (\<lparr>success = False, error = Some ''Usuario no autenticado''\<rparr>, sb_ejemplo\<lparr>sesion := None\<rparr>) \<and>
   auth_getUser sb_ejemplo = Resuelta (Some ''u1'') \<and>
   fallo_de sb_ejemplo InsertMensaje = None \<and>
   enviarMensaje ''hola'' sb_ejemplo =
     (\<lparr>success = True, error = None\<rparr>,
      sb_ejemplo\<lparr>mensajes_insertados := [\<lparr>contenido = ''hola'', usuario_id = ''u1''\<rparr>]\<rparr>) \<and>
   fallo_de (sb_ejemplo\<lparr>fallos := [(InsertMensaje, Lanzado ''Network request failed'')]\<rparr>)
     InsertMensaje = Some (Lanzado ''Network request failed'') \<and>
   enviarMensaje ''hola'' (sb_ejemplo\<lparr>fallos := [(InsertMensaje, Lanzado ''Network request failed'')]\<rparr>) =
     (\<lparr>success = False, error = Some ''Network request failed''\<rparr>,
      sb_ejemplo\<lparr>fallos := [(InsertMensaje, Lanzado ''Network request failed'')]\<rparr>)"
  using C6_enviarMensaje_sesion[of "sb_ejemplo\<lparr>sesion := None\<rparr>" "''hola''" "''u1''"
      "''Network request failed''" h_ejemplo]
    C6_enviarMensaje_sesion[of sb_ejemplo "''hola''" "''u1''" "''Network request failed''" h_ejemplo]
    C6_enviarMensaje_sesion[of
      "sb_ejemplo\<lparr>fallos := [(InsertMensaje, Lanzado ''Network request failed'')]\<rparr>"
      "''hola''" "''u1''" "''Network request failed''" h_ejemplo]
  by (simp add: auth_getUser_def fallo_de_def sb_ejemplo_def enviarMensaje_def
      enviarEventoEscritura_def insert_mensaje_def)

text \<open>
  Claim C7. When the enrichment query for an inserted row throws or resolves with an error,
  the handler invokes the callback once, with the message built from the event's row and
  the author \<open>Desconocido\<close> of role \<open>usuario\<close>.
\<close>

theorem C7_enriquecimiento_fallido:
  "select_mensaje (id_mensaje p) sb = Rechazada e \<or>
   select_mensaje (id_mensaje p) sb = Resuelta (Respuesta d (Some e)) \<Longrightarrow>
   manejarInsertMensaje callback p sb s =
     callback
       \<lparr>contenido = contenido p, usuario_id = usuario_id p,
        id_mensaje = id_mensaje p, created_at = created_at p,
        usuario = Some \<lparr>email = ''Desconocido'', rol = ''usuario''\<rparr>\<rparr> s"
  by (auto simp add: manejarInsertMensaje_def mensajeFallback_def desconocido_def)

theorem C7_enriquecimiento_fallido_witness:
  "select_mensaje (id_mensaje payload_ejemplo)
     (sb_ejemplo\<lparr>fallos := [(SelectMensaje, Lanzado ''Network request failed'')]\<rparr>) =
     Rechazada ''Network request failed'' \<and>
   manejarInsertMensaje (\<lambda>m entregados. entregados @ [m]) payload_ejemplo
     (sb_ejemplo\<lparr>fallos := [(SelectMensaje, Lanzado ''Network request failed'')]\<rparr>) [] =
     [\<lparr>contenido = ''que tal'', usuario_id = ''u1'', id_mensaje = ''m2'', created_at = 20,
       usuario = Some \<lparr>email = ''Desconocido'', rol = ''usuario''\<rparr>\<rparr>]"
  using C7_enriquecimiento_fallido[of payload_ejemplo
      "sb_ejemplo\<lparr>fallos := [(SelectMensaje, Lanzado ''Network request failed'')]\<rparr>"
      "''Network request failed''" None "\<lambda>m entregados. entregados @ [m]" "[]"]
  by (simp add: select_mensaje_def fallo_de_def sb_ejemplo_def payload_ejemplo_def)

lemma select_mensaje_casos:
  "(\<exists>e. select_mensaje i sb = Rechazada e) \<or>
   (\<exists>e. select_mensaje i sb = Resuelta (Respuesta None (Some e))) \<or>
   (\<exists>f. select_mensaje i sb = Resuelta (Respuesta (Some f) None) \<and> id_mensaje f = i)"
proof (cases "fallo_de sb SelectMensaje")
  case (Some f)
  then show ?thesis by (cases f) (simp_all add: select_mensaje_def)
next
  case None
  show ?thesis
  proof (cases "filter (\<lambda>f. id_mensaje f = i) (tabla_mensajes sb)")
    case Nil
    with None show ?thesis by (simp add: select_mensaje_def)
  next
    case (Cons f fs)
    then have "f \<in> set (filter (\<lambda>f. id_mensaje f = i) (tabla_mensajes sb))" by simp
    then have "id_mensaje f = i" by simp
    with None Cons show ?thesis by (cases fs) (simp_all add: select_mensaje_def)
  qed
qed

lemma manejarInsertMensaje_entrega:
  "\<exists>m. id_mensaje m = id_mensaje p \<and> (\<forall>callback s. manejarInsertMensaje callback p sb s = callback m s)"
proof -
  have fb: "id_mensaje (mensajeFallback p) = id_mensaje p" by (simp add: mensajeFallback_def)
  from select_mensaje_casos[of "id_mensaje p" sb] consider
      e where "select_mensaje (id_mensaje p) sb = Rechazada e"
    | e where "select_mensaje (id_mensaje p) sb = Resuelta (Respuesta None (Some e))"
    | f where "select_mensaje (id_mensaje p) sb = Resuelta (Respuesta (Some f) None)"
        "id_mensaje f = id_mensaje p"
    by blast
  then show ?thesis
  proof cases
    case 1
    then have "\<forall>callback s. manejarInsertMensaje callback p sb s = callback (mensajeFallback p) s"
      by (simp add: manejarInsertMensaje_def)
    with fb show ?thesis by blast
  next
    case 2
    then have "\<forall>callback s. manejarInsertMensaje callback p sb s = callback (mensajeFallback p) s"
      by (simp add: manejarInsertMensaje_def)
    with fb show ?thesis by blast
  next
    case 3
    then have "\<forall>callback s. manejarInsertMensaje callback p sb s = callback (mensajeFormateado f) s"
      by (simp add: manejarInsertMensaje_def)
    moreover have "id_mensaje (mensajeFormateado f) = id_mensaje p"
      using 3(2) by (simp add: mensajeFormateado_def)
    ultimately show ?thesis by blast
  qed
qed

lemma alRecibirMensaje_presente:
  "list_ex (\<lambda>m. id_mensaje m = id_mensaje nuevo) (mensajes h) \<Longrightarrow> alRecibirMensaje nuevo h = h"
  by (simp add: alRecibirMensaje_def)

text \<open>
  Claim C8. The hook's callback leaves the hook's state as it is when the list already has
  a message with the identifier of the new one. When the list has no message with the
  identifier of an event's row, delivering the event twice, whatever the backend answers
  either time, leaves exactly one message with that identifier: the second delivery changes
  nothing. The relay itself delivers both: a callback that records its arguments has two
  more of them.
\<close>

theorem C8_sin_duplicados:
  "(list_ex (\<lambda>m. id_mensaje m = id_mensaje nuevo) (mensajes h) \<longrightarrow> alRecibirMensaje nuevo h = h) \<and>
   (\<not> list_ex (\<lambda>m. id_mensaje m = id_mensaje p) (mensajes h) \<longrightarrow>
      length (filter (\<lambda>m. id_mensaje m = id_mensaje p)
        (mensajes (manejarInsertMensaje alRecibirMensaje p sb2
           (manejarInsertMensaje alRecibirMensaje p sb1 h)))) = 1 \<and>
      manejarInsertMensaje alRecibirMensaje p sb2 (manejarInsertMensaje alRecibirMensaje p sb1 h) =
        manejarInsertMensaje alRecibirMensaje p sb1 h) \<and>
   length (manejarInsertMensaje (\<lambda>m entregados. entregados @ [m]) p sb2
      (manejarInsertMensaje (\<lambda>m entregados. entregados @ [m]) p sb1 entregados)) =
     length entregados + 2"
proof (intro conjI impI)
  assume "list_ex (\<lambda>m. id_mensaje m = id_mensaje nuevo) (mensajes h)"
  then show "alRecibirMensaje nuevo h = h" by (rule alRecibirMensaje_presente)
next
  obtain m1 where m1: "id_mensaje m1 = id_mensaje p"
    "\<And>(callback :: Mensaje \<Rightarrow> useChat \<Rightarrow> useChat) s.
       manejarInsertMensaje callback p sb1 s = callback m1 s"
    using manejarInsertMensaje_entrega[of p sb1] by blast
  obtain m2 where m2: "id_mensaje m2 = id_mensaje p"
    "\<And>(callback :: Mensaje \<Rightarrow> useChat \<Rightarrow> useChat) s.
       manejarInsertMensaje callback p sb2 s = callback m2 s"
    using manejarInsertMensaje_entrega[of p sb2] by blast
  obtain e1 :: Mensaje where
    e1: "\<And>(callback :: Mensaje \<Rightarrow> Mensaje list \<Rightarrow> Mensaje list) s.
      manejarInsertMensaje callback p sb1 s = callback e1 s"
    using manejarInsertMensaje_entrega[of p sb1] by blast
  obtain e2 :: Mensaje where
    e2: "\<And>(callback :: Mensaje \<Rightarrow> Mensaje list \<Rightarrow> Mensaje list) s.
      manejarInsertMensaje callback p sb2 s = callback e2 s"
    using manejarInsertMensaje_entrega[of p sb2] by blast
  show "length (manejarInsertMensaje (\<lambda>m entregados. entregados @ [m]) p sb2
      (manejarInsertMensaje (\<lambda>m entregados. entregados @ [m]) p sb1 entregados)) =
     length entregados + 2"
    by (simp add: e1 e2)
  assume nuevo: "\<not> list_ex (\<lambda>m. id_mensaje m = id_mensaje p) (mensajes h)"
  then have f: "filter (\<lambda>m. id_mensaje m = id_mensaje p) (mensajes h) = []"
    by (simp add: list_ex_iff filter_empty_conv)
  have h1: "mensajes (alRecibirMensaje m1 h) = mensajes h @ [m1]"
    using nuevo by (simp add: alRecibirMensaje_def m1(1))
  have h2: "alRecibirMensaje m2 (alRecibirMensaje m1 h) = alRecibirMensaje m1 h"
    by (rule alRecibirMensaje_presente) (simp add: h1 m1(1) m2(1))
  show "length (filter (\<lambda>m. id_mensaje m = id_mensaje p)
        (mensajes (manejarInsertMensaje alRecibirMensaje p sb2
           (manejarInsertMensaje alRecibirMensaje p sb1 h)))) = 1"
    by (simp add: m1 m2(2) h2 h1 f)
  show "manejarInsertMensaje alRecibirMensaje p sb2 (manejarInsertMensaje alRecibirMensaje p sb1 h) =
        manejarInsertMensaje alRecibirMensaje p sb1 h"
    by (simp add: m1(2) m2(2) h2)
qed

theorem C8_sin_duplicados_witness:
  "\<not> list_ex (\<lambda>m. id_mensaje m = id_mensaje payload_ejemplo) (mensajes h_ejemplo) \<and>
   mensajes (manejarInsertMensaje alRecibirMensaje payload_ejemplo sb_ejemplo h_ejemplo) =
     [\<lparr>contenido = ''que tal'', usuario_id = ''u1'', id_mensaje = ''m2'', created_at = 20,
       usuario = Some \<lparr>email = ''ana@example.com'', rol = ''chef''\<rparr>\<rparr>] \<and>
   mensajes (manejarInsertMensaje alRecibirMensaje payload_ejemplo
       (sb_ejemplo\<lparr>fallos := [(SelectMensaje, ErrorDevuelto ''timeout'')]\<rparr>)
       (manejarInsertMensaje alRecibirMensaje payload_ejemplo sb_ejemplo h_ejemplo)) =
     [\<lparr>contenido = ''que tal'', usuario_id = ''u1'', id_mensaje = ''m2'', created_at = 20,
       usuario = Some \<lparr>email = ''ana@example.com'', rol = ''chef''\<rparr>\<rparr>] \<and>
   list_ex (\<lambda>m. id_mensaje m = id_mensaje (mensajeFallback payload_ejemplo))
     (mensajes (manejarInsertMensaje alRecibirMensaje payload_ejemplo sb_ejemplo h_ejemplo)) \<and>
   alRecibirMensaje (mensajeFallback payload_ejemplo)
       (manejarInsertMensaje alRecibirMensaje payload_ejemplo sb_ejemplo h_ejemplo) =
     manejarInsertMensaje alRecibirMensaje payload_ejemplo sb_ejemplo h_ejemplo"
  using C8_sin_duplicados[of "mensajeFallback payload_ejemplo"
      "manejarInsertMensaje alRecibirMensaje payload_ejemplo sb_ejemplo h_ejemplo"
      payload_ejemplo
      "sb_ejemplo\<lparr>fallos := [(SelectMensaje, ErrorDevuelto ''timeout'')]\<rparr>" sb_ejemplo]
    C8_sin_duplicados[of "mensajeFallback payload_ejemplo" h_ejemplo
      payload_ejemplo
      "sb_ejemplo\<lparr>fallos := [(SelectMensaje, ErrorDevuelto ''timeout'')]\<rparr>" sb_ejemplo]
  by (simp add: manejarInsertMensaje_def select_mensaje_def fallo_de_def sb_ejemplo_def
      payload_ejemplo_def h_ejemplo_def alRecibirMensaje_def mensajeFormateado_def
      mensajeFallback_def desconocido_def)

text \<open>
  Claim C9. For every limit, given or left to its default of 50, when the query for the
  recent messages throws or resolves with an error, \<open>obtenerMensajes\<close> returns the empty
  list.
\<close>

theorem C9_obtenerMensajes_fallo:
  "select_mensajes (case limite of None \<Rightarrow> 50 | Some n \<Rightarrow> n) sb = Rechazada e \<or>
   select_mensajes (case limite of None \<Rightarrow> 50 | Some n \<Rightarrow> n) sb = Resuelta (Respuesta d (Some e)) \<Longrightarrow>
   obtenerMensajes limite sb = []"
  by (auto simp add: obtenerMensajes_def)

theorem C9_obtenerMensajes_fallo_witness:
  "select_mensajes (case Some 2 of None \<Rightarrow> 50 | Some n \<Rightarrow> n)
     (sb_ejemplo\<lparr>fallos := [(SelectMensajes, ErrorDevuelto ''relation does not exist'')]\<rparr>) =
     Resuelta (Respuesta None (Some ''relation does not exist'')) \<and>
   obtenerMensajes (Some 2)
     (sb_ejemplo\<lparr>fallos := [(SelectMensajes, ErrorDevuelto ''relation does not exist'')]\<rparr>) = [] \<and>
   select_mensajes (case None of None \<Rightarrow> 50 | Some n \<Rightarrow> n)
     (sb_ejemplo\<lparr>fallos := [(SelectMensajes, Lanzado ''Network request failed'')]\<rparr>) =
     Rechazada ''Network request failed'' \<and>
   obtenerMensajes None
     (sb_ejemplo\<lparr>fallos := [(SelectMensajes, Lanzado ''Network request failed'')]\<rparr>) = []"
  using C9_obtenerMensajes_fallo[of "Some 2"
      "sb_ejemplo\<lparr>fallos := [(SelectMensajes, ErrorDevuelto ''relation does not exist'')]\<rparr>"
      "''relation does not exist''" None]
    C9_obtenerMensajes_fallo[of None
      "sb_ejemplo\<lparr>fallos := [(SelectMensajes, Lanzado ''Network request failed'')]\<rparr>"
      "''Network request failed''" None]
  by (simp add: select_mensajes_def fallo_de_def sb_ejemplo_def)

text \<open>
  Claim C10. Without a session \<open>enviarEventoEscritura\<close> returns, with no value, and leaves
  the backend as it was, whichever flag it is given; \<open>enviarMensaje\<close> on the same backend
  returns the failure \<open>Usuario no autenticado\<close>.
\<close>

theorem C10_escritura_sin_sesion:
  "auth_getUser sb = Resuelta None \<Longrightarrow>
   enviarEventoEscritura escribiendo sb = ((), sb) \<and>
   enviarMensaje cont sb = (\<lparr>success = False, error = Some ''Usuario no autenticado''\<rparr>, sb)"
  by (simp add: enviarEventoEscritura_def enviarMensaje_def)

theorem C10_escritura_sin_sesion_witness:
  "auth_getUser (sb_ejemplo\<lparr>sesion := None\<rparr>) = Resuelta None \<and>
   enviarEventoEscritura True (sb_ejemplo\<lparr>sesion := None\<rparr>) = ((), sb_ejemplo\<lparr>sesion := None\<rparr>) \<and>
   indicadores_insertados (snd (enviarEventoEscritura True (sb_ejemplo\<lparr>sesion := None\<rparr>))) = [] \<and>
   indicadores_insertados (snd (enviarEventoEscritura True sb_ejemplo)) = [''u1''] \<and>
   enviarMensaje ''hola'' (sb_ejemplo\<lparr>sesion := None\<rparr>) =
     (\<lparr>success = False, error = Some ''Usuario no autenticado''\<rparr>, sb_ejemplo\<lparr>sesion := None\<rparr>)"
  using C10_escritura_sin_sesion[of "sb_ejemplo\<lparr>sesion := None\<rparr>" True "''hola''"]
  by (simp add: auth_getUser_def fallo_de_def sb_ejemplo_def enviarEventoEscritura_def
      insert_indicador_def)

end
